theory Spec2Isabelle
  imports Main
begin

section \<open>Transcripto: a shallow embedding of \<open>Transcripto.py\<close>\<close>

text \<open>
  The program is a desktop form around three steps: \<open>validate_and_convert_file\<close> (the input
  normalizer), \<open>transcribe_audio\<close> (the transcriber) and the handlers of the class
  \<open>TranscriptionApp\<close>. Everything the program does to the outside is made explicit: the
  file system is a map from paths to contents, every call into a library or the operating
  system appends an event to a trace, a raised exception is the \<open>Inl\<close> of a sum, and the
  collaborators whose results the program cannot determine (the video library, the speech
  model, the document library's writer) are fields of an environment record that every
  theorem quantifies over.
\<close>

subsection \<open>Python strings\<close>

text \<open>
  A Python \<open>str\<close> is a sequence of code points; the model's \<open>string\<close> holds the code points
  below 256 (Latin-1), one per \<open>char\<close>. \<open>str.lower()\<close> maps \<open>A..Z\<close> to \<open>a..z\<close> and the
  Latin-1 capitals \<open>0xC0..0xDE\<close> (but not the multiplication sign \<open>0xD7\<close>) to the letter 32
  places further; every other code point below 256 is unchanged.
\<close>

type_synonym path = string

definition lower_char :: "char \<Rightarrow> char" where
  "lower_char c =
     (let n = (of_char c :: nat)
      in if (65 \<le> n \<and> n \<le> 90) \<or> (192 \<le> n \<and> n \<le> 222 \<and> n \<noteq> 215)
         then char_of (n + 32) else c)"

definition lower :: "string \<Rightarrow> string" where
  "lower s = map lower_char s"

text \<open>\<open>s.endswith(suffix)\<close>: the last \<open>len(suffix)\<close> code points of \<open>s\<close> are \<open>suffix\<close>.\<close>

definition endswith :: "string \<Rightarrow> string \<Rightarrow> bool" where
  "endswith s suffix =
     (length suffix \<le> length s \<and> drop (length s - length suffix) s = suffix)"

text \<open>\<open>s.rfind(c)\<close> for a one-character \<open>c\<close>: the highest index holding \<open>c\<close>, or \<open>-1\<close>.\<close>

definition rfind :: "string \<Rightarrow> char \<Rightarrow> int" where
  "rfind p c =
     (case filter (\<lambda>i. p ! i = c) (rev [0..<length p]) of
        [] \<Rightarrow> - 1
      | i # _ \<Rightarrow> int i)"

subsection \<open>\<open>os.path\<close>\<close>

text \<open>
  \<open>os.path.splitext\<close> is \<open>genericpath._splitext(p, sep, altsep, '.')\<close> on every platform:
  \<open>posixpath\<close> calls it with \<open>sep = '/'\<close> and no \<open>altsep\<close>, \<open>ntpath\<close> with the backslash and
  \<open>altsep = '/'\<close>. The two separators are parameters of the model.
  \<^verbatim>\<open>
    sepIndex = p.rfind(sep)
    if altsep:
        altsepIndex = p.rfind(altsep)
        sepIndex = max(sepIndex, altsepIndex)
    dotIndex = p.rfind(extsep)
    if dotIndex > sepIndex:
        # skip all leading dots
        filenameIndex = sepIndex + 1
        while filenameIndex < dotIndex:
            if p[filenameIndex:filenameIndex+1] != extsep:
                return p[:dotIndex], p[dotIndex:]
            filenameIndex += 1
    return p, p[:0]
  \<close>
\<close>

function skip_leading_dots :: "string \<Rightarrow> char \<Rightarrow> nat \<Rightarrow> nat \<Rightarrow> string \<times> string" where
  "skip_leading_dots p extsep filenameIndex dotIndex =
     (if filenameIndex < dotIndex then
        (if p ! filenameIndex \<noteq> extsep then (take dotIndex p, drop dotIndex p)
         else skip_leading_dots p extsep (filenameIndex + 1) dotIndex)
      else (p, []))"
  by pat_completeness auto
termination
  by (relation "measure (\<lambda>(p, extsep, filenameIndex, dotIndex). dotIndex - filenameIndex)") auto

declare skip_leading_dots.simps [simp del]

definition splitext_generic :: "string \<Rightarrow> char \<Rightarrow> char option \<Rightarrow> char \<Rightarrow> string \<times> string" where
  "splitext_generic p sep altsep extsep =
     (let sepIndex = (case altsep of
                        None \<Rightarrow> rfind p sep
                      | Some a \<Rightarrow> max (rfind p sep) (rfind p a));
          dotIndex = rfind p extsep
      in if dotIndex > sepIndex
         then skip_leading_dots p extsep (nat (sepIndex + 1)) (nat dotIndex)
         else (p, []))"

text \<open>
  \<open>os.path.basename\<close> is the platform's: \<open>posixpath.basename(p)\<close> is
  \<open>p[p.rfind('/') + 1:]\<close>, and \<open>ntpath.basename\<close> first splits off a drive or share
  prefix. The program uses it for the text of two labels only, so the platform's
  function is a field of the environment, and the POSIX one is defined here.
\<close>

definition posixpath_basename :: "string \<Rightarrow> string" where
  "posixpath_basename p = drop (nat (rfind p (CHR ''/'') + 1)) p"

subsection \<open>Exceptions, files and the collaborators\<close>

text \<open>
  The exceptions the program raises itself (\<open>FileNotFoundError\<close>, \<open>ValueError\<close>), the
  \<open>AttributeError\<close> of \<open>video.audio.write_audiofile\<close> on a clip whose \<open>audio\<close> is \<open>None\<close>,
  and \<open>LibraryError\<close> for any other subclass of \<open>Exception\<close> that a library call raises;
  each carries the text \<open>str(e)\<close> returns.
\<close>

datatype error =
    FileNotFoundError string
  | ValueError string
  | AttributeError string
  | LibraryError string

fun str_of :: "error \<Rightarrow> string" where
  "str_of (FileNotFoundError m) = m"
| "str_of (ValueError m) = m"
| "str_of (AttributeError m) = m"
| "str_of (LibraryError m) = m"

text \<open>A transcript segment; the program reads its \<open>text\<close> and nothing else.\<close>

record segment =
  seg_text :: string

text \<open>
  \<open>model.transcribe\<close> returns a generator: the segments are computed while the \<open>for\<close> loop
  consumes them, so the model can raise after any number of segments.
\<close>

datatype seg_stream =
    SDone
  | SYield segment seg_stream
  | SRaise error

fun stream_of :: "segment list \<Rightarrow> seg_stream" where
  "stream_of [] = SDone"
| "stream_of (s # ss) = SYield s (stream_of ss)"

text \<open>The exception a generator ends with, if it ends with one.\<close>

fun stream_error :: "seg_stream \<Rightarrow> error option" where
  "stream_error SDone = None"
| "stream_error (SYield s rest) = stream_error rest"
| "stream_error (SRaise e) = Some e"

text \<open>The segments a generator yields before it ends or raises.\<close>

fun yielded :: "seg_stream \<Rightarrow> segment list" where
  "yielded SDone = []"
| "yielded (SYield s rest) = s # yielded rest"
| "yielded (SRaise e) = []"

text \<open>A document of the document library: its paragraphs, in order.\<close>

datatype doc_paragraph =
    Heading nat string
  | Paragraph string

type_synonym document = "doc_paragraph list"

datatype file_content =
    Media string
  | Docx document
  | Directory

text \<open>
  The result of a library call that writes a file: it completes, or it raises and leaves
  the path as it was (\<open>None\<close>) or holding a partial file.
\<close>

datatype 'a io =
    Ok 'a
  | Failed error "file_content option"

type_synonym audio_clip = string

record video_clip =
  audio :: "audio_clip option"

record whisper_model =
  model_transcribe :: "file_content option \<Rightarrow> error + seg_stream"

text \<open>
  The environment: the platform's two path separators and its \<open>os.path.basename\<close>, and
  the outcome of each library call whose result the program does not determine. \<open>VideoFileClip\<close> is given what the
  path holds; \<open>WhisperModel\<close> is given the size name and returns the model or raises.
  The files a library keeps for itself (the model's download cache, the encoder's
  temporary files) are not part of the modelled file system.
\<close>

record env =
  os_sep :: char
  os_altsep :: "char option"
  os_basename :: "path \<Rightarrow> string"
  VideoFileClip :: "file_content option \<Rightarrow> error + video_clip"
  write_audiofile :: "audio_clip \<Rightarrow> path \<Rightarrow> file_content io"
  WhisperModel :: "string \<Rightarrow> error + whisper_model"
  docx_save :: "document \<Rightarrow> path \<Rightarrow> unit io"

definition splitext :: "env \<Rightarrow> path \<Rightarrow> string \<times> string" where
  "splitext env p = splitext_generic p (os_sep env) (os_altsep env) (CHR ''.'')"

definition basename :: "env \<Rightarrow> path \<Rightarrow> string" where
  "basename env p = os_basename env p"

text \<open>Every call that leaves the program, in the order the program makes them.\<close>

datatype event =
    PathExists path
  | ClipOpen path
  | AudioWrite path
  | ModelLoad string
  | ModelTranscribe path
  | DocSave path document
  | ProcessEvents
  | MsgWarning string string
  | MsgInformation string string
  | MsgCritical string string

record world =
  files :: "path \<rightharpoonup> file_content"
  trace :: "event list"

definition emit :: "event \<Rightarrow> world \<Rightarrow> world" where
  "emit ev w = w\<lparr>trace := trace w @ [ev]\<rparr>"

definition path_exists :: "world \<Rightarrow> path \<Rightarrow> bool" where
  "path_exists w p = (files w p \<noteq> None)"

text \<open>The file-system writes of a trace: the paths written, in order.\<close>

fun written :: "event list \<Rightarrow> path list" where
  "written [] = []"
| "written (AudioWrite p # evs) = p # written evs"
| "written (DocSave p d # evs) = p # written evs"
| "written (ev # evs) = written evs"

text \<open>The events of the normalizer's calls, and those of the transcriber's.\<close>

fun normalizer_event :: "event \<Rightarrow> bool" where
  "normalizer_event (PathExists p) = True"
| "normalizer_event (ClipOpen p) = True"
| "normalizer_event (AudioWrite p) = True"
| "normalizer_event ev = False"

fun transcriber_event :: "event \<Rightarrow> bool" where
  "transcriber_event (ModelLoad n) = True"
| "transcriber_event (ModelTranscribe p) = True"
| "transcriber_event (DocSave p d) = True"
| "transcriber_event ev = False"

text \<open>The events a step added to the trace of the world it started from.\<close>

definition new_events :: "world \<Rightarrow> world \<Rightarrow> event list" where
  "new_events w w' = drop (length (trace w)) (trace w')"

text \<open>What a write leaves behind: on completion the new content; on failure the partial file, if any.\<close>

fun finish_write :: "path \<Rightarrow> file_content \<Rightarrow> world \<Rightarrow> world" where
  "finish_write p c w = w\<lparr>files := (files w)(p \<mapsto> c)\<rparr>"

fun leave_partial :: "path \<Rightarrow> file_content option \<Rightarrow> world \<Rightarrow> world" where
  "leave_partial p None w = w"
| "leave_partial p (Some c) w = w\<lparr>files := (files w)(p \<mapsto> c)\<rparr>"

subsection \<open>The input normalizer\<close>

definition supported_audio_formats :: "string list" where
  "supported_audio_formats = [''.wav'', ''.mp3'', ''.m4a'']"

definition supported_video_formats :: "string list" where
  "supported_video_formats = [''.mp4'', ''.avi'', ''.mov'', ''.mkv'']"

definition msg_not_found :: string where
  "msg_not_found = ''Le fichier n'existe pas.''"

definition msg_unsupported :: string where
  "msg_unsupported =
     ''Format de fichier non pris en charge. Formats support'' @ [CHR 0xE9] @
     ''s : WAV, MP3, M4A, MP4, AVI, MOV, MKV.''"

definition msg_no_audio :: string where
  "msg_no_audio =
     [CHR 0x27] @ ''NoneType'' @ [CHR 0x27] @ '' object has no attribute '' @
     [CHR 0x27] @ ''write_audiofile'' @ [CHR 0x27]"

text \<open>
  \<^verbatim>\<open>
    def validate_and_convert_file(file_path):
        supported_audio_formats = ['.wav', '.mp3', '.m4a']
        supported_video_formats = ['.mp4', '.avi', '.mov', '.mkv']
        if not os.path.exists(file_path):
            raise FileNotFoundError("Le fichier n'existe pas.")
        file_extension = os.path.splitext(file_path)[1].lower()
        if file_extension in supported_audio_formats:
            return file_path
        elif file_extension in supported_video_formats:
            video = VideoFileClip(file_path)
            audio_path = os.path.splitext(file_path)[0] + '.mp3'
            video.audio.write_audiofile(audio_path)
            return audio_path
        else:
            raise ValueError("Format de fichier non pris en charge. ...")
  \<close>
  The function returns the path or the exception, and the world it leaves. The outcome
  of opening the clip and that of writing the audio track are the environment's.
\<close>

definition validate_and_convert_file :: "env \<Rightarrow> path \<Rightarrow> world \<Rightarrow> (error + path) \<times> world" where
  "validate_and_convert_file env file_path w =
     (let w1 = emit (PathExists file_path) w in
      if \<not> path_exists w1 file_path then (Inl (FileNotFoundError msg_not_found), w1)
      else
        let file_extension = lower (snd (splitext env file_path)) in
        if file_extension \<in> set supported_audio_formats then (Inr file_path, w1)
        else if file_extension \<in> set supported_video_formats then
          (let w2 = emit (ClipOpen file_path) w1 in
           case VideoFileClip env (files w2 file_path) of
             Inl e \<Rightarrow> (Inl e, w2)
           | Inr video \<Rightarrow>
               let audio_path = fst (splitext env file_path) @ ''.mp3'' in
               (case audio video of
                  None \<Rightarrow> (Inl (AttributeError msg_no_audio), w2)
                | Some track \<Rightarrow>
                    let w3 = emit (AudioWrite audio_path) w2 in
                    (case write_audiofile env track audio_path of
                       Ok c \<Rightarrow> (Inr audio_path, finish_write audio_path c w3)
                     | Failed e partial \<Rightarrow> (Inl e, leave_partial audio_path partial w3))))
        else (Inl (ValueError msg_unsupported), w1))"

subsection \<open>The transcriber\<close>

text \<open>
  The document library. \<open>Document()\<close> opens the default template, which has no paragraph;
  \<open>add_heading\<close> and \<open>add_paragraph\<close> append one paragraph each (heading levels 0 to 9 are
  accepted; the program passes 1) and hand its text to a run. The run turns a tab into a
  tab element and a line feed or a carriage return into a line break; every other stretch
  of characters becomes a text element, which the XML library refuses with a
  \<open>ValueError\<close> when it holds a control character (a code point below \<open>0x20\<close>; tab, line
  feed and carriage return never reach it). A paragraph is recorded by the text the
  library reads back from it: a tab for a tab element, a line feed for a line break. So
  a carriage return is read back as a line feed.
\<close>

definition Document :: document where
  "Document = []"

definition xml_compatible :: "char \<Rightarrow> bool" where
  "xml_compatible c =
     (let n = (of_char c :: nat) in 32 \<le> n \<or> n = 9 \<or> n = 10 \<or> n = 13)"

definition msg_xml :: string where
  "msg_xml =
     ''All strings must be XML compatible: Unicode or ASCII, no NULL bytes or control characters''"

definition run_text :: "string \<Rightarrow> error + string" where
  "run_text txt =
     (if list_all xml_compatible txt
      then Inr (map (\<lambda>c. if c = CHR 0x0D then CHR 0x0A else c) txt)
      else Inl (ValueError msg_xml))"

definition add_heading :: "document \<Rightarrow> string \<Rightarrow> nat \<Rightarrow> error + document" where
  "add_heading doc txt level =
     (case run_text txt of
        Inl e \<Rightarrow> Inl e
      | Inr stored \<Rightarrow> Inr (doc @ [Heading level stored]))"

definition add_paragraph :: "document \<Rightarrow> string \<Rightarrow> error + document" where
  "add_paragraph doc txt =
     (case run_text txt of
        Inl e \<Rightarrow> Inl e
      | Inr stored \<Rightarrow> Inr (doc @ [Paragraph stored]))"

text \<open>
  The loop \<open>for segment in segments: doc.add_paragraph(segment.text)\<close> over the generator:
  each turn takes the next segment from the generator and adds its paragraph, and an
  exception of either leaves the loop, and the function, at once.
\<close>

fun consume_segments :: "document \<Rightarrow> seg_stream \<Rightarrow> error + document" where
  "consume_segments doc SDone = Inr doc"
| "consume_segments doc (SYield s rest) =
     (case add_paragraph doc (seg_text s) of
        Inl e \<Rightarrow> Inl e
      | Inr doc' \<Rightarrow> consume_segments doc' rest)"
| "consume_segments doc (SRaise e) = Inl e"


text \<open>
  \<^verbatim>\<open>
    def transcribe_audio(file_path, output_path):
        model = WhisperModel("medium")
        segments, _ = model.transcribe(file_path)
        doc = Document()
        doc.add_heading("Transcription", level=1)
        for segment in segments:
            doc.add_paragraph(segment.text)
        doc.save(output_path)
  \<close>
\<close>

definition transcribe_audio :: "env \<Rightarrow> path \<Rightarrow> path \<Rightarrow> world \<Rightarrow> (error + unit) \<times> world" where
  "transcribe_audio env file_path output_path w =
     (let w1 = emit (ModelLoad ''medium'') w in
      case WhisperModel env ''medium'' of
        Inl e \<Rightarrow> (Inl e, w1)
      | Inr model \<Rightarrow>
          let w2 = emit (ModelTranscribe file_path) w1 in
          (case model_transcribe model (files w2 file_path) of
             Inl e \<Rightarrow> (Inl e, w2)
           | Inr segments \<Rightarrow>
               (case add_heading Document ''Transcription'' 1 of
                  Inl e \<Rightarrow> (Inl e, w2)
                | Inr doc \<Rightarrow>
                    (case consume_segments doc segments of
                       Inl e \<Rightarrow> (Inl e, w2)
                     | Inr doc' \<Rightarrow>
                         let w3 = emit (DocSave output_path doc') w2 in
                         (case docx_save env doc' output_path of
                            Ok u \<Rightarrow> (Inr (), finish_write output_path (Docx doc') w3)
                          | Failed e partial \<Rightarrow>
                              (Inl e, leave_partial output_path partial w3))))))"

subsection \<open>The interaction shell: \<open>TranscriptionApp\<close>\<close>

text \<open>
  The fields of the window that the handlers read or write: the two selected paths
  (\<open>None\<close> until a selection), the texts of the three labels and the style sheet of the
  status label.
\<close>

record app =
  selected_file :: "path option"
  output_file :: "path option"
  file_label :: string
  output_label :: string
  status_label :: string
  status_style :: string

definition e_acute :: char where
  "e_acute = CHR 0xE9"

definition e_grave :: char where
  "e_grave = CHR 0xE8"

definition init_app :: app where
  "init_app =
     \<lparr>selected_file = None,
      output_file = None,
      file_label = ''Aucun fichier s'' @ [e_acute] @ ''lectionn'' @ [e_acute],
      output_label = ''Aucun emplacement de fichier de sortie s'' @ [e_acute] @ ''lectionn'' @ [e_acute],
      status_label = [],
      status_style = []\<rparr>"

text \<open>
  The handlers take the path the file dialog returned: the empty string when the user
  cancelled it.
\<close>

text \<open>
  \<^verbatim>\<open>
    def select_file(self):
        file_path, _ = file_dialog.getOpenFileName(...)
        if file_path:
            self.selected_file = file_path
            self.file_label.setText(f"Fichier s...lectionn... : {os.path.basename(file_path)}")

    def select_output_file(self):
        file_path, _ = file_dialog.getSaveFileName(...)
        if file_path:
            if not file_path.endswith(".docx"):
                file_path += ".docx"
            self.output_file = file_path
            self.output_label.setText(f"Fichier de sortie : {os.path.basename(file_path)}")
  \<close>
\<close>

definition select_file :: "env \<Rightarrow> app \<Rightarrow> path \<Rightarrow> app" where
  "select_file env a file_path =
     (if file_path \<noteq> [] then
        a\<lparr>selected_file := Some file_path,
          file_label := ''Fichier s'' @ [e_acute] @ ''lectionn'' @ [e_acute] @ '' : '' @ basename env file_path\<rparr>
      else a)"

definition select_output_file :: "env \<Rightarrow> app \<Rightarrow> path \<Rightarrow> app" where
  "select_output_file env a file_path =
     (if file_path \<noteq> [] then
        (let file_path' = (if \<not> endswith file_path ''.docx'' then file_path @ ''.docx'' else file_path)
         in a\<lparr>output_file := Some file_path',
              output_label := ''Fichier de sortie : '' @ basename env file_path'\<rparr>)
      else a)"

text \<open>Python's truth value of a field that is \<open>None\<close> or a string.\<close>

fun truthy :: "string option \<Rightarrow> bool" where
  "truthy None = False"
| "truthy (Some s) = (s \<noteq> [])"

definition msg_select_input :: string where
  "msg_select_input = ''Veuillez s'' @ [e_acute] @ ''lectionner un fichier avant de continuer.''"

definition msg_select_output :: string where
  "msg_select_output = ''Veuillez s'' @ [e_acute] @ ''lectionner un emplacement de fichier de sortie.''"

definition msg_in_progress :: string where
  "msg_in_progress = ''Transcription en cours... Veuillez patienter.''"

definition msg_success :: string where
  "msg_success = ''Transcription termin'' @ [e_acute] @ ''e avec succ'' @ [e_grave] @ ''s !''"

definition msg_error :: string where
  "msg_error = ''Une erreur s'est produite.''"

definition msg_saved :: "path \<Rightarrow> string" where
  "msg_saved output_path =
     ''La transcription a '' @ [e_acute] @ ''t'' @ [e_acute] @ '' enregistr'' @ [e_acute] @
     ''e dans '' @ output_path @ ''.''"

definition title_success :: string where
  "title_success = ''Succ'' @ [e_grave] @ ''s''"

text \<open>The \<open>except Exception as e\<close> block.\<close>

definition on_exception :: "error \<Rightarrow> app \<times> world \<Rightarrow> app \<times> world" where
  "on_exception e aw =
     (case aw of (a, w) \<Rightarrow>
        (a\<lparr>status_label := msg_error\<rparr>, emit (MsgCritical ''Erreur'' (str_of e)) w))"

text \<open>
  The \<open>try\<close> block of the trigger handler and its two exits:
  \<^verbatim>\<open>
        try:
            audio_path = validate_and_convert_file(self.selected_file)
            self.status_label.setText("Transcription en cours... Veuillez patienter.")
            self.status_label.setStyleSheet("font-weight: bold;")
            QApplication.processEvents()
            transcribe_audio(audio_path, self.output_file)
            self.status_label.setText("Transcription termin...e avec succ...s !")
            QMessageBox.information(self, "Succ...s", f"La transcription a ... dans {self.output_file}.")
        except Exception as e:
            self.status_label.setText("Une erreur s'est produite.")
            QMessageBox.critical(self, "Erreur", str(e))
  \<close>
\<close>

definition run_transcription :: "env \<Rightarrow> path \<Rightarrow> path \<Rightarrow> app \<times> world \<Rightarrow> app \<times> world" where
  "run_transcription env input_path output_path aw =
     (case aw of (a, w) \<Rightarrow>
        (case validate_and_convert_file env input_path w of
           (Inl e, w1) \<Rightarrow> on_exception e (a, w1)
         | (Inr audio_path, w1) \<Rightarrow>
             let a1 = a\<lparr>status_label := msg_in_progress, status_style := ''font-weight: bold;''\<rparr>;
                 w2 = emit ProcessEvents w1
             in (case transcribe_audio env audio_path output_path w2 of
                   (Inl e, w3) \<Rightarrow> on_exception e (a1, w3)
                 | (Inr u, w3) \<Rightarrow>
                     (a1\<lparr>status_label := msg_success\<rparr>,
                      emit (MsgInformation title_success (msg_saved output_path)) w3))))"

text \<open>
  The handler of the trigger button. The two guards are Python's \<open>not self.selected_file\<close>
  and \<open>not self.output_file\<close>: true of \<open>None\<close> and of the empty string.
\<close>

definition transcribe :: "env \<Rightarrow> app \<times> world \<Rightarrow> app \<times> world" where
  "transcribe env aw =
     (case aw of (a, w) \<Rightarrow>
        let no_input = (a, emit (MsgWarning ''Erreur'' msg_select_input) w);
            no_output = (a, emit (MsgWarning ''Erreur'' msg_select_output) w)
        in (case selected_file a of
              None \<Rightarrow> no_input
            | Some input_path \<Rightarrow>
                if input_path = [] then no_input
                else (case output_file a of
                        None \<Rightarrow> no_output
                      | Some output_path \<Rightarrow>
                          if output_path = [] then no_output
                          else run_transcription env input_path output_path (a, w))))"

text \<open>The user's actions on the window, and a session as a list of them.\<close>

datatype action =
    SelectFile path
  | SelectOutputFile path
  | Transcribe

fun handle :: "env \<Rightarrow> app \<times> world \<Rightarrow> action \<Rightarrow> app \<times> world" where
  "handle env (a, w) (SelectFile p) = (select_file env a p, w)"
| "handle env (a, w) (SelectOutputFile p) = (select_output_file env a p, w)"
| "handle env (a, w) Transcribe = transcribe env (a, w)"

definition session :: "env \<Rightarrow> world \<Rightarrow> action list \<Rightarrow> app \<times> world" where
  "session env w acts = foldl (handle env) (init_app, w) acts"

text \<open>The stored output path, once there is one, ends in the document extension.\<close>

definition output_ok :: "app \<Rightarrow> bool" where
  "output_ok a = (case output_file a of None \<Rightarrow> True | Some p \<Rightarrow> endswith p ''.docx'')"

subsection \<open>Sample environments\<close>

text \<open>
  A POSIX machine on which every library call succeeds: a media file opens as a clip
  with an audio track, the model returns two segments, every write completes.
\<close>

definition sample_segments :: "segment list" where
  "sample_segments = [\<lparr>seg_text = '' Bonjour.''\<rparr>, \<lparr>seg_text = '' Merci.''\<rparr>]"

definition posix_env :: env where
  "posix_env =
     \<lparr>os_sep = CHR ''/'',
      os_altsep = None,
      os_basename = posixpath_basename,
      VideoFileClip = (\<lambda>c. case c of
                              Some (Media m) \<Rightarrow> Inr \<lparr>audio = Some m\<rparr>
                            | _ \<Rightarrow> Inl (LibraryError ''cannot read the clip'')),
      write_audiofile = (\<lambda>track p. Ok (Media track)),
      WhisperModel = (\<lambda>size. Inr \<lparr>model_transcribe = (\<lambda>c. Inr (stream_of sample_segments))\<rparr>),
      docx_save = (\<lambda>doc p. Ok ())\<rparr>"

text \<open>The same machine with a video library that cannot read the clip.\<close>

definition unreadable_clip_env :: env where
  "unreadable_clip_env =
     posix_env\<lparr>VideoFileClip := (\<lambda>c. Inl (LibraryError ''cannot read the clip''))\<rparr>"

text \<open>The same machine with a model that raises after its first segment.\<close>

definition failing_model_env :: env where
  "failing_model_env =
     posix_env\<lparr>WhisperModel :=
       (\<lambda>size. Inr \<lparr>model_transcribe =
          (\<lambda>c. Inr (SYield \<lparr>seg_text = '' Bonjour.''\<rparr> (SRaise (LibraryError ''out of memory''))))\<rparr>)\<rparr>"

text \<open>A clip without an audio track, and an audio write that fails leaving a partial file.\<close>

definition silent_clip_env :: env where
  "silent_clip_env = posix_env\<lparr>VideoFileClip := (\<lambda>c. Inr \<lparr>audio = None\<rparr>)\<rparr>"

definition failing_write_env :: env where
  "failing_write_env =
     posix_env\<lparr>write_audiofile :=
       (\<lambda>track p. Failed (LibraryError ''no space left on device'') (Some (Media ''vi'')))\<rparr>"




definition sample_world :: world where
  "sample_world =
     \<lparr>files = [''clip.mp4'' \<mapsto> Media ''video'', ''talk.WAV'' \<mapsto> Media ''audio'',
               ''notes.txt'' \<mapsto> Media ''text''],
      trace = []\<rparr>"

text \<open>The same files with an older \<open>clip.mp3\<close> already beside the clip.\<close>

definition stale_sibling_world :: world where
  "stale_sibling_world =
     sample_world\<lparr>files := (files sample_world)(''clip.mp3'' \<mapsto> Media ''old'')\<rparr>"

definition ready_app :: app where
  "ready_app = init_app\<lparr>selected_file := Some ''clip.mp4'', output_file := Some ''out.docx''\<rparr>"

section \<open>Properties\<close>

subsection \<open>Paths\<close>

lemma rfind_nil: "rfind [] c = - 1"
  by (simp add: rfind_def)

lemma rfind_snoc: "rfind (p @ [x]) c = (if x = c then int (length p) else rfind p c)"
proof -
  have "filter (\<lambda>i. (p @ [x]) ! i = c) (rev [0..<length p]) =
        filter (\<lambda>i. p ! i = c) (rev [0..<length p])"
    by (rule filter_cong) (auto simp: nth_append)
  then show ?thesis by (simp add: rfind_def)
qed

lemma rfind_bounds: "- 1 \<le> rfind p c \<and> rfind p c < int (length p)"
proof (induction p rule: rev_induct)
  case Nil
  then show ?case by (simp add: rfind_nil)
next
  case (snoc x xs)
  then show ?case by (simp add: rfind_snoc)
qed

lemma rfind_upper: "i < length p \<Longrightarrow> p ! i = c \<Longrightarrow> int i \<le> rfind p c"
proof (induction p rule: rev_induct)
  case Nil
  then show ?case by simp
next
  case (snoc x xs)
  show ?case
  proof (cases "i < length xs")
    case True
    with snoc have "int i \<le> rfind xs c" by (simp add: nth_append)
    with True show ?thesis by (simp add: rfind_snoc)
  next
    case False
    with snoc.prems have "i = length xs" "x = c" by (auto simp: nth_append)
    then show ?thesis by (simp add: rfind_snoc)
  qed
qed

lemma rfind_hit: "0 \<le> rfind p c \<Longrightarrow> p ! nat (rfind p c) = c"
proof (induction p rule: rev_induct)
  case Nil
  then show ?case by (simp add: rfind_nil)
next
  case (snoc x xs)
  show ?case
  proof (cases "x = c")
    case True
    then show ?thesis by (simp add: rfind_snoc)
  next
    case False
    with snoc.prems have nn: "0 \<le> rfind xs c" by (simp add: rfind_snoc)
    moreover have "rfind xs c < int (length xs)" using rfind_bounds by blast
    ultimately have "nat (rfind xs c) < length xs" by simp
    with False nn snoc.IH show ?thesis by (simp add: rfind_snoc nth_append)
  qed
qed

text \<open>Past the last occurrence of a character there is none.\<close>

lemma drop_avoids:
  assumes "rfind p c < int d"
  shows "c \<notin> set (drop d p)"
proof
  assume "c \<in> set (drop d p)"
  then obtain j where j: "j < length (drop d p)" "drop d p ! j = c"
    by (auto simp: in_set_conv_nth)
  then have "d + j < length p" "p ! (d + j) = c" by auto
  then have "int (d + j) \<le> rfind p c" by (rule rfind_upper)
  with assms show False by simp
qed

lemma skip_leading_dots_cases:
  "skip_leading_dots p extsep i d = (p, []) \<or>
   skip_leading_dots p extsep i d = (take d p, drop d p)"
proof (induction p extsep i d rule: skip_leading_dots.induct)
  case (1 p extsep i d)
  then show ?case by (simp add: skip_leading_dots.simps [of p extsep i d])
qed

text \<open>
  \<open>splitext\<close> either finds no extension, or cuts the path at its last dot, which then
  lies after the last separator.
\<close>

lemma splitext_cases:
  "splitext env p = (p, []) \<or>
   (\<exists>d. splitext env p = (take d p, drop d p) \<and> int d = rfind p (CHR ''.'') \<and>
        rfind p (os_sep env) < int d \<and>
        (\<forall>a. os_altsep env = Some a \<longrightarrow> rfind p a < int d))"
proof (cases "splitext env p = (p, [])")
  case True
  then show ?thesis by simp
next
  case False
  let ?s = "case os_altsep env of
              None \<Rightarrow> rfind p (os_sep env)
            | Some a \<Rightarrow> max (rfind p (os_sep env)) (rfind p a)"
  let ?d = "rfind p (CHR ''.'')"
  from False have gt: "?d > ?s"
    by (auto simp: splitext_def splitext_generic_def Let_def split: if_splits)
  have "- 1 \<le> ?s"
    using rfind_bounds [of p "os_sep env"]
    by (cases "os_altsep env") (simp_all add: le_max_iff_disj)
  with gt have d0: "0 \<le> ?d" by simp
  from gt False have "splitext env p = (take (nat ?d) p, drop (nat ?d) p)"
    using skip_leading_dots_cases [of p "CHR ''.''" "nat (?s + 1)" "nat ?d"]
    by (auto simp: splitext_def splitext_generic_def Let_def)
  moreover have "rfind p (os_sep env) < ?d"
    using gt by (auto split: option.splits)
  moreover have "\<forall>a. os_altsep env = Some a \<longrightarrow> rfind p a < ?d"
    using gt by (auto split: option.splits)
  ultimately show ?thesis
    using d0 by (intro disjI2 exI [of _ "nat ?d"]) simp
qed

lemma splitext_join: "fst (splitext env p) @ snd (splitext env p) = p"
  using splitext_cases [of env p] by auto

lemma splitext_ext_no_sep: "os_sep env \<notin> set (snd (splitext env p))"
  using splitext_cases [of env p] by (auto dest: drop_avoids)

lemma splitext_ext_no_altsep: "os_altsep env = Some a \<Longrightarrow> a \<notin> set (snd (splitext env p))"
  using splitext_cases [of env p] by (auto dest: drop_avoids)

text \<open>An extension is empty, or a dot followed by characters other than the dot.\<close>

lemma splitext_ext_shape:
  "snd (splitext env p) = [] \<or>
   (\<exists>e. snd (splitext env p) = CHR ''.'' # e \<and> CHR ''.'' \<notin> set e)"
proof -
  from splitext_cases [of env p] show ?thesis
  proof
    assume "splitext env p = (p, [])"
    then show ?thesis by simp
  next
    assume "\<exists>d. splitext env p = (take d p, drop d p) \<and> int d = rfind p (CHR ''.'') \<and>
        rfind p (os_sep env) < int d \<and>
        (\<forall>a. os_altsep env = Some a \<longrightarrow> rfind p a < int d)"
    then obtain d where sp: "splitext env p = (take d p, drop d p)"
      and d: "int d = rfind p (CHR ''.'')"
      by blast
    have "rfind p (CHR ''.'') < int (length p)" using rfind_bounds by blast
    with d have lt: "d < length p" by simp
    have "p ! nat (rfind p (CHR ''.'')) = CHR ''.''" using d by (intro rfind_hit) simp
    with d have hit: "p ! d = CHR ''.''" by (metis nat_int)
    have "rfind p (CHR ''.'') < int (Suc d)" using d by simp
    then have "CHR ''.'' \<notin> set (drop (Suc d) p)" by (rule drop_avoids)
    moreover have "drop d p = CHR ''.'' # drop (Suc d) p"
      using lt hit by (metis Cons_nth_drop_Suc)
    ultimately show ?thesis using sp by simp
  qed
qed

lemma rfind_append_notin: "c \<notin> set ys \<Longrightarrow> rfind (xs @ ys) c = rfind xs c"
proof (induction ys rule: rev_induct)
  case Nil
  then show ?case by simp
next
  case (snoc y ys)
  then have "y \<noteq> c" and IH: "rfind (xs @ ys) c = rfind xs c" by auto
  have "rfind ((xs @ ys) @ [y]) c = rfind (xs @ ys) c"
    using \<open>y \<noteq> c\<close> by (simp only: rfind_snoc if_False)
  with IH show ?case by simp
qed

lemma skip_leading_dots_found:
  "i \<le> j \<Longrightarrow> j < d \<Longrightarrow> p ! j \<noteq> extsep \<Longrightarrow>
   skip_leading_dots p extsep i d = (take d p, drop d p)"
proof (induction p extsep i d rule: skip_leading_dots.induct)
  case (1 p extsep i d)
  show ?case
  proof (cases "p ! i \<noteq> extsep")
    case True
    with "1.prems" show ?thesis by (simp add: skip_leading_dots.simps [of p extsep i d])
  next
    case False
    with "1.prems" have "i \<noteq> j" by auto
    with "1.prems" have "i + 1 \<le> j" "i < d" by simp_all
    with False "1.IH" "1.prems" show ?thesis
      by (simp add: skip_leading_dots.simps [of p extsep i d])
  qed
qed

text \<open>
  Conversely, a path whose last component has a character other than the dot before its
  last dot has the text from that dot on as its extension, whatever the directory part.
\<close>

lemma splitext_name_ext:
  assumes dot: "CHR ''.'' \<notin> set e"
    and sep: "os_sep env \<notin> set (name @ CHR ''.'' # e)"
    and alt: "\<forall>a. os_altsep env = Some a \<longrightarrow> a \<notin> set (name @ CHR ''.'' # e)"
    and name: "\<exists>c \<in> set name. c \<noteq> CHR ''.''"
  shows "splitext env (dir @ name @ CHR ''.'' # e) = (dir @ name, CHR ''.'' # e)"
proof -
  let ?p = "dir @ name @ CHR ''.'' # e"
  let ?d = "length (dir @ name)"
  have p: "?p = ((dir @ name) @ [CHR ''.'']) @ e" by simp
  have "rfind (((dir @ name) @ [CHR ''.'']) @ e) (CHR ''.'') = rfind ((dir @ name) @ [CHR ''.'']) (CHR ''.'')"
    using dot by (rule rfind_append_notin)
  also have "\<dots> = int ?d"
    using rfind_snoc [of "dir @ name" "CHR ''.''" "CHR ''.''"] by simp
  finally have dotIndex: "rfind ?p (CHR ''.'') = int ?d" by simp
  have no: "\<And>c. c \<notin> set (name @ CHR ''.'' # e) \<Longrightarrow> rfind ?p c < int (length dir)"
  proof -
    fix c assume "c \<notin> set (name @ CHR ''.'' # e)"
    then have "rfind (dir @ (name @ CHR ''.'' # e)) c = rfind dir c" by (rule rfind_append_notin)
    then show "rfind ?p c < int (length dir)" using rfind_bounds [of dir c] by simp
  qed
  from name obtain k where k: "k < length name" "name ! k \<noteq> CHR ''.''"
    by (auto simp: in_set_conv_nth)
  let ?s = "case os_altsep env of
              None \<Rightarrow> rfind ?p (os_sep env)
            | Some a \<Rightarrow> max (rfind ?p (os_sep env)) (rfind ?p a)"
  have s_lt: "?s < int (length dir)"
  proof (cases "os_altsep env")
    case None
    then show ?thesis using no [OF sep] by simp
  next
    case (Some a)
    with alt have "a \<notin> set (name @ CHR ''.'' # e)" by blast
    then have "rfind ?p a < int (length dir)" by (rule no)
    with Some no [OF sep] show ?thesis by simp
  qed
  have s_ge: "- 1 \<le> ?s"
    using rfind_bounds [of ?p "os_sep env"]
    by (cases "os_altsep env") (simp_all add: le_max_iff_disj)
  have gt: "?s < rfind ?p (CHR ''.'')" using s_lt dotIndex by simp
  have idx: "nat (?s + 1) \<le> length dir + k" using s_lt s_ge by simp
  have hit: "?p ! (length dir + k) \<noteq> CHR ''.''" using k by (simp add: nth_append)
  have found: "skip_leading_dots ?p (CHR ''.'') (nat (?s + 1)) ?d = (take ?d ?p, drop ?d ?p)"
    using idx _ hit by (rule skip_leading_dots_found) (use k in simp)
  have nd: "nat (rfind ?p (CHR ''.'')) = ?d" by (simp only: dotIndex nat_int)
  have "splitext env ?p =
          skip_leading_dots ?p (CHR ''.'') (nat (?s + 1)) (nat (rfind ?p (CHR ''.'')))"
    using gt by (simp add: splitext_def splitext_generic_def Let_def)
  also have "\<dots> = (take ?d ?p, drop ?d ?p)" by (simp only: nd found)
  finally show ?thesis by simp
qed

lemma endswith_append: "endswith (p @ s) s"
  by (simp add: endswith_def)

lemma endswith_same_length:
  "length ext = length suffix \<Longrightarrow> endswith (stem @ ext) suffix = (ext = suffix)"
  by (simp add: endswith_def)

subsection \<open>Traces\<close>

lemma written_append: "written (xs @ ys) = written xs @ written ys"
  by (induction xs rule: written.induct) simp_all

lemma trace_leave_partial: "trace (leave_partial p partial w) = trace w"
  by (cases partial) simp_all

lemma files_leave_partial:
  "q \<noteq> p \<Longrightarrow> files (leave_partial p partial w) q = files w q"
  by (cases partial) simp_all

lemma trace_emit: "trace (emit ev w) = trace w @ [ev]"
  by (simp add: emit_def)

lemma files_emit: "files (emit ev w) = files w"
  by (simp add: emit_def)

lemma new_events_emit: "new_events w (emit ev w) = [ev]"
  by (simp add: new_events_def emit_def)

lemma validate_and_convert_file_events:
  "\<exists>evs. trace (snd (validate_and_convert_file env file_path w)) = trace w @ evs \<and>
         list_all normalizer_event evs"
  by (auto simp: validate_and_convert_file_def Let_def emit_def trace_leave_partial
      split: sum.splits option.splits io.splits)

lemma transcribe_audio_events:
  "\<exists>evs. trace (snd (transcribe_audio env file_path output_path w)) = trace w @ evs \<and>
         list_all transcriber_event evs"
  by (auto simp: transcribe_audio_def Let_def emit_def trace_leave_partial
      split: sum.splits option.splits io.splits)

lemma normalizer_new_events:
  "list_all normalizer_event (new_events w (snd (validate_and_convert_file env file_path w)))"
  using validate_and_convert_file_events [of env file_path w] by (auto simp: new_events_def)

lemma transcriber_new_events:
  "list_all transcriber_event (new_events w (snd (transcribe_audio env file_path output_path w)))"
  using transcribe_audio_events [of env file_path output_path w] by (auto simp: new_events_def)

subsection \<open>The input normalizer\<close>

lemma audio_video_disjoint:
  "x \<in> set supported_video_formats \<Longrightarrow> x \<notin> set supported_audio_formats"
  by (auto simp: supported_video_formats_def supported_audio_formats_def)

lemma video_extension_not_mp3:
  "lower ext \<in> set supported_video_formats \<Longrightarrow> ext \<noteq> ''.mp3''"
  by (auto simp: supported_video_formats_def lower_def lower_char_def)

lemma audio_path_differs:
  assumes "lower (snd (splitext env p)) \<in> set supported_video_formats"
  shows "fst (splitext env p) @ ''.mp3'' \<noteq> p"
proof
  assume eq: "fst (splitext env p) @ ''.mp3'' = p"
  have "fst (splitext env p) @ snd (splitext env p) = p" by (rule splitext_join)
  with eq have "snd (splitext env p) = ''.mp3''" by (metis same_append_eq)
  with assms show False using video_extension_not_mp3 by blast
qed

text \<open>
  Claim C2. For an existing path whose extension (the second component of
  \<open>os.path.splitext\<close>), lower-cased, is \<open>.wav\<close>, \<open>.mp3\<close> or \<open>.m4a\<close>,
  \<open>validate_and_convert_file\<close> returns the path itself; the world it leaves is the one it
  started from with the existence check as the only new event, so the files are unchanged
  and nothing was written.
\<close>

theorem validate_audio_unchanged:
  assumes "path_exists w file_path"
    and "lower (snd (splitext env file_path)) \<in> set supported_audio_formats"
  shows "validate_and_convert_file env file_path w = (Inr file_path, emit (PathExists file_path) w) \<and>
         files (snd (validate_and_convert_file env file_path w)) = files w \<and>
         written (new_events w (snd (validate_and_convert_file env file_path w))) = []"
  using assms
  by (simp add: validate_and_convert_file_def Let_def path_exists_def emit_def new_events_def)

theorem validate_audio_unchanged_witness:
  "path_exists sample_world ''talk.WAV'' \<and>
   snd (splitext posix_env ''talk.WAV'') = ''.WAV'' \<and>
   fst (validate_and_convert_file posix_env ''talk.WAV'' sample_world) = Inr ''talk.WAV'' \<and>
   files (snd (validate_and_convert_file posix_env ''talk.WAV'' sample_world)) = files sample_world \<and>
   trace (snd (validate_and_convert_file posix_env ''talk.WAV'' sample_world)) = [PathExists ''talk.WAV'']"
proof -
  have h1: "path_exists sample_world ''talk.WAV''"
    by (simp add: path_exists_def sample_world_def)
  have ext: "snd (splitext posix_env ''talk.WAV'') = ''.WAV''"
    by code_simp
  have h2: "lower (snd (splitext posix_env ''talk.WAV'')) \<in> set supported_audio_formats"
    by code_simp
  from validate_audio_unchanged [OF h1 h2]
  have "validate_and_convert_file posix_env ''talk.WAV'' sample_world =
          (Inr ''talk.WAV'', emit (PathExists ''talk.WAV'') sample_world)"
    and "files (snd (validate_and_convert_file posix_env ''talk.WAV'' sample_world)) = files sample_world"
    by (simp_all add: emit_def)
  then show ?thesis using h1 ext by (simp add: emit_def sample_world_def)
qed

lemma validate_and_convert_file_frame:
  "q \<noteq> fst (splitext env file_path) @ ''.mp3'' \<Longrightarrow>
   files (snd (validate_and_convert_file env file_path w)) q = files w q"
  by (auto simp: validate_and_convert_file_def Let_def emit_def files_leave_partial
      split: sum.splits option.splits io.splits)

text \<open>
  Claim C3, as stated, fails twice. An existing \<open>clip.mp4\<close> that the video library
  cannot read makes \<open>validate_and_convert_file\<close> raise the library's exception: no file
  is written and no path is returned. And when a \<open>clip.mp3\<close> is already beside a readable
  \<open>clip.mp4\<close>, the file written is not a new one: the older file is overwritten.
\<close>

theorem validate_video_counterexample:
  "path_exists sample_world ''clip.mp4'' \<and>
   lower (snd (splitext unreadable_clip_env ''clip.mp4'')) \<in> set supported_video_formats \<and>
   fst (validate_and_convert_file unreadable_clip_env ''clip.mp4'' sample_world) =
     Inl (LibraryError ''cannot read the clip'') \<and>
   written (trace (snd (validate_and_convert_file unreadable_clip_env ''clip.mp4'' sample_world))) = [] \<and>
   path_exists stale_sibling_world ''clip.mp4'' \<and>
   lower (snd (splitext posix_env ''clip.mp4'')) \<in> set supported_video_formats \<and>
   files stale_sibling_world ''clip.mp3'' = Some (Media ''old'') \<and>
   fst (validate_and_convert_file posix_env ''clip.mp4'' stale_sibling_world) = Inr ''clip.mp3'' \<and>
   files (snd (validate_and_convert_file posix_env ''clip.mp4'' stale_sibling_world)) ''clip.mp3'' =
     Some (Media ''video'')"
  by code_simp

text \<open>
  Claim C3, amended. Take an existing path whose lower-cased extension is \<open>.mp4\<close>, \<open>.avi\<close>,
  \<open>.mov\<close> or \<open>.mkv\<close>, and call the sibling path the input path with its extension replaced
  by \<open>.mp3\<close> (the extension holds no path separator, so the directory is the same; the
  sibling path differs from the input path).
  \<^item> When the audio extraction succeeds (the clip opens, it has an audio track, and
    \<open>write_audiofile\<close> completes with content \<open>c\<close>), \<open>validate_and_convert_file\<close> returns the
    sibling path, and the world it leaves has exactly one write, of \<open>c\<close> at the sibling
    path: a file created there, or the file already there overwritten.
  \<^item> When the clip cannot be opened, or has no audio track, it raises, returns no path
    and writes nothing.
  \<^item> When \<open>write_audiofile\<close> raises, it raises and returns no path, and the sibling path
    holds what the failed write left.
  In every case the file at the input path, and every file but the one at the sibling
  path, is as it was.
\<close>

theorem validate_video_sibling:
  assumes "path_exists w file_path"
    and "lower (snd (splitext env file_path)) \<in> set supported_video_formats"
  shows "(VideoFileClip env (files w file_path) = Inr video \<and> audio video = Some track \<and>
          write_audiofile env track (fst (splitext env file_path) @ ''.mp3'') = Ok c \<longrightarrow>
            validate_and_convert_file env file_path w =
              (Inr (fst (splitext env file_path) @ ''.mp3''),
               w\<lparr>files := (files w)(fst (splitext env file_path) @ ''.mp3'' \<mapsto> c),
                 trace := trace w @ [PathExists file_path, ClipOpen file_path,
                                     AudioWrite (fst (splitext env file_path) @ ''.mp3'')]\<rparr>)) \<and>
         (VideoFileClip env (files w file_path) = Inl e \<longrightarrow>
            validate_and_convert_file env file_path w =
              (Inl e, w\<lparr>trace := trace w @ [PathExists file_path, ClipOpen file_path]\<rparr>)) \<and>
         (VideoFileClip env (files w file_path) = Inr video \<and> audio video = None \<longrightarrow>
            validate_and_convert_file env file_path w =
              (Inl (AttributeError msg_no_audio),
               w\<lparr>trace := trace w @ [PathExists file_path, ClipOpen file_path]\<rparr>)) \<and>
         (VideoFileClip env (files w file_path) = Inr video \<and> audio video = Some track \<and>
          write_audiofile env track (fst (splitext env file_path) @ ''.mp3'') = Failed e partial \<longrightarrow>
            validate_and_convert_file env file_path w =
              (Inl e,
               leave_partial (fst (splitext env file_path) @ ''.mp3'') partial
                 (w\<lparr>trace := trace w @ [PathExists file_path, ClipOpen file_path,
                                       AudioWrite (fst (splitext env file_path) @ ''.mp3'')]\<rparr>))) \<and>
         file_path = fst (splitext env file_path) @ snd (splitext env file_path) \<and>
         os_sep env \<notin> set (snd (splitext env file_path)) \<and>
         fst (splitext env file_path) @ ''.mp3'' \<noteq> file_path \<and>
         files (snd (validate_and_convert_file env file_path w)) file_path = files w file_path \<and>
         (\<forall>q. q \<noteq> fst (splitext env file_path) @ ''.mp3'' \<longrightarrow>
              files (snd (validate_and_convert_file env file_path w)) q = files w q)"
proof -
  let ?audio_path = "fst (splitext env file_path) @ ''.mp3''"
  have na: "lower (snd (splitext env file_path)) \<notin> set supported_audio_formats"
    using assms(2) by (rule audio_video_disjoint)
  have ok: "VideoFileClip env (files w file_path) = Inr video \<and> audio video = Some track \<and>
          write_audiofile env track ?audio_path = Ok c \<longrightarrow>
            validate_and_convert_file env file_path w =
              (Inr ?audio_path,
               w\<lparr>files := (files w)(?audio_path \<mapsto> c),
                 trace := trace w @ [PathExists file_path, ClipOpen file_path,
                                     AudioWrite ?audio_path]\<rparr>)"
    using assms na
    by (auto simp: validate_and_convert_file_def Let_def path_exists_def emit_def)
  have unreadable: "VideoFileClip env (files w file_path) = Inl e \<longrightarrow>
            validate_and_convert_file env file_path w =
              (Inl e, w\<lparr>trace := trace w @ [PathExists file_path, ClipOpen file_path]\<rparr>)"
    using assms na
    by (auto simp: validate_and_convert_file_def Let_def path_exists_def emit_def)
  have silent: "VideoFileClip env (files w file_path) = Inr video \<and> audio video = None \<longrightarrow>
            validate_and_convert_file env file_path w =
              (Inl (AttributeError msg_no_audio),
               w\<lparr>trace := trace w @ [PathExists file_path, ClipOpen file_path]\<rparr>)"
    using assms na
    by (auto simp: validate_and_convert_file_def Let_def path_exists_def emit_def)
  have failed: "VideoFileClip env (files w file_path) = Inr video \<and> audio video = Some track \<and>
          write_audiofile env track ?audio_path = Failed e partial \<longrightarrow>
            validate_and_convert_file env file_path w =
              (Inl e,
               leave_partial ?audio_path partial
                 (w\<lparr>trace := trace w @ [PathExists file_path, ClipOpen file_path,
                                       AudioWrite ?audio_path]\<rparr>))"
    using assms na
    by (auto simp: validate_and_convert_file_def Let_def path_exists_def emit_def)
  have differs: "?audio_path \<noteq> file_path"
    using assms(2) by (rule audio_path_differs)
  have join: "file_path = fst (splitext env file_path) @ snd (splitext env file_path)"
    by (simp add: splitext_join)
  have frame: "\<forall>q. q \<noteq> ?audio_path \<longrightarrow>
      files (snd (validate_and_convert_file env file_path w)) q = files w q"
    by (simp add: validate_and_convert_file_frame)
  have untouched: "files (snd (validate_and_convert_file env file_path w)) file_path = files w file_path"
    using differs frame by (metis (no_types))
  from ok unreadable silent failed join splitext_ext_no_sep differs untouched frame
  show ?thesis by (intro conjI)
qed

theorem validate_video_sibling_witness:
  "path_exists sample_world ''clip.mp4'' \<and>
   splitext posix_env ''clip.mp4'' = (''clip'', ''.mp4'') \<and>
   fst (validate_and_convert_file posix_env ''clip.mp4'' sample_world) = Inr ''clip.mp3'' \<and>
   files (snd (validate_and_convert_file posix_env ''clip.mp4'' sample_world)) ''clip.mp3'' =
     Some (Media ''video'') \<and>
   files (snd (validate_and_convert_file posix_env ''clip.mp4'' sample_world)) ''clip.mp4'' =
     Some (Media ''video'') \<and>
   trace (snd (validate_and_convert_file posix_env ''clip.mp4'' sample_world)) =
     [PathExists ''clip.mp4'', ClipOpen ''clip.mp4'', AudioWrite ''clip.mp3''] \<and>
   validate_and_convert_file unreadable_clip_env ''clip.mp4'' sample_world =
     (Inl (LibraryError ''cannot read the clip''),
      sample_world\<lparr>trace := [PathExists ''clip.mp4'', ClipOpen ''clip.mp4'']\<rparr>) \<and>
   validate_and_convert_file silent_clip_env ''clip.mp4'' sample_world =
     (Inl (AttributeError msg_no_audio),
      sample_world\<lparr>trace := [PathExists ''clip.mp4'', ClipOpen ''clip.mp4'']\<rparr>) \<and>
   fst (validate_and_convert_file failing_write_env ''clip.mp4'' sample_world) =
     Inl (LibraryError ''no space left on device'') \<and>
   files (snd (validate_and_convert_file failing_write_env ''clip.mp4'' sample_world)) ''clip.mp3'' =
     Some (Media ''vi'') \<and>
   files (snd (validate_and_convert_file failing_write_env ''clip.mp4'' sample_world)) ''clip.mp4'' =
     Some (Media ''video'')"
proof -
  have h1: "path_exists sample_world ''clip.mp4''"
    by (simp add: path_exists_def sample_world_def)
  have t: "trace sample_world = []"
    by (simp add: sample_world_def)
  have clip: "files sample_world ''clip.mp4'' = Some (Media ''video'')"
    by (simp add: sample_world_def)

  have sp: "splitext posix_env ''clip.mp4'' = (''clip'', ''.mp4'')"
    by code_simp
  have h2: "lower (snd (splitext posix_env ''clip.mp4'')) \<in> set supported_video_formats"
    by code_simp
  have open_ok: "VideoFileClip posix_env (files sample_world ''clip.mp4'') = Inr \<lparr>audio = Some ''video''\<rparr>"
    by (simp add: posix_env_def sample_world_def)
  have write_ok: "write_audiofile posix_env ''video'' (fst (splitext posix_env ''clip.mp4'') @ ''.mp3'') =
              Ok (Media ''video'')"
    by (simp add: posix_env_def)
  from validate_video_sibling [OF h1 h2, of "\<lparr>audio = Some ''video''\<rparr>" "''video''" "Media ''video''"]
    open_ok write_ok
  have r1: "validate_and_convert_file posix_env ''clip.mp4'' sample_world =
      (Inr ''clip.mp3'',
       sample_world\<lparr>files := (files sample_world)(''clip.mp3'' \<mapsto> Media ''video''),
         trace := trace sample_world @ [PathExists ''clip.mp4'', ClipOpen ''clip.mp4'',
                                        AudioWrite ''clip.mp3'']\<rparr>)"
    by (simp add: sp)

  have sp2: "splitext unreadable_clip_env ''clip.mp4'' = (''clip'', ''.mp4'')"
    by code_simp
  have h2u: "lower (snd (splitext unreadable_clip_env ''clip.mp4'')) \<in> set supported_video_formats"
    by code_simp
  have open_fails: "VideoFileClip unreadable_clip_env (files sample_world ''clip.mp4'') =
      Inl (LibraryError ''cannot read the clip'')"
    by (simp add: unreadable_clip_env_def)
  from validate_video_sibling [OF h1 h2u, where e = "LibraryError ''cannot read the clip''"] open_fails
  have r2: "validate_and_convert_file unreadable_clip_env ''clip.mp4'' sample_world =
      (Inl (LibraryError ''cannot read the clip''),
       sample_world\<lparr>trace := trace sample_world @ [PathExists ''clip.mp4'', ClipOpen ''clip.mp4'']\<rparr>)"
    by blast

  have h2s: "lower (snd (splitext silent_clip_env ''clip.mp4'')) \<in> set supported_video_formats"
    by code_simp
  have open_silent: "VideoFileClip silent_clip_env (files sample_world ''clip.mp4'') = Inr \<lparr>audio = None\<rparr>"
    by (simp add: silent_clip_env_def)
  from validate_video_sibling [OF h1 h2s, where video = "\<lparr>audio = None\<rparr>"] open_silent
  have r3: "validate_and_convert_file silent_clip_env ''clip.mp4'' sample_world =
      (Inl (AttributeError msg_no_audio),
       sample_world\<lparr>trace := trace sample_world @ [PathExists ''clip.mp4'', ClipOpen ''clip.mp4'']\<rparr>)"
    by simp

  have sp4: "splitext failing_write_env ''clip.mp4'' = (''clip'', ''.mp4'')"
    by code_simp
  have h2f: "lower (snd (splitext failing_write_env ''clip.mp4'')) \<in> set supported_video_formats"
    by code_simp
  have open_f: "VideoFileClip failing_write_env (files sample_world ''clip.mp4'') =
      Inr \<lparr>audio = Some ''video''\<rparr>"
    by (simp add: failing_write_env_def posix_env_def sample_world_def)
  have write_f: "write_audiofile failing_write_env ''video''
        (fst (splitext failing_write_env ''clip.mp4'') @ ''.mp3'') =
      Failed (LibraryError ''no space left on device'') (Some (Media ''vi''))"
    by (simp add: failing_write_env_def)
  from validate_video_sibling [OF h1 h2f, of "\<lparr>audio = Some ''video''\<rparr>" "''video''" _
      "LibraryError ''no space left on device''" "Some (Media ''vi'')"] open_f write_f
  have r4: "validate_and_convert_file failing_write_env ''clip.mp4'' sample_world =
      (Inl (LibraryError ''no space left on device''),
       leave_partial ''clip.mp3'' (Some (Media ''vi''))
         (sample_world\<lparr>trace := trace sample_world @ [PathExists ''clip.mp4'', ClipOpen ''clip.mp4'',
                                                       AudioWrite ''clip.mp3'']\<rparr>))"
    by (simp add: sp4)

  show ?thesis
    using h1 sp by (simp add: r1 r2 r3 r4 t clip)
qed

text \<open>
  Claim C4. For a path that does not exist, whatever its extension,
  \<open>validate_and_convert_file\<close> raises \<open>FileNotFoundError\<close>; for an existing path whose
  lower-cased extension is in neither list it raises \<open>ValueError\<close> with a message that
  names the seven supported formats. In both cases the world it leaves is the one it
  started from with the existence check as the only new event: nothing is written.
\<close>

theorem validate_failures:
  "(\<not> path_exists w file_path \<longrightarrow>
      validate_and_convert_file env file_path w =
        (Inl (FileNotFoundError ''Le fichier n'existe pas.''), emit (PathExists file_path) w)) \<and>
   (path_exists w file_path \<and>
    lower (snd (splitext env file_path)) \<notin> set supported_audio_formats \<and>
    lower (snd (splitext env file_path)) \<notin> set supported_video_formats \<longrightarrow>
      validate_and_convert_file env file_path w =
        (Inl (ValueError
                (''Format de fichier non pris en charge. Formats support'' @ [CHR 0xE9] @
                 ''s : WAV, MP3, M4A, MP4, AVI, MOV, MKV.'')),
         emit (PathExists file_path) w)) \<and>
   files (emit (PathExists file_path) w) = files w \<and>
   written (new_events w (emit (PathExists file_path) w)) = []"
  by (simp add: validate_and_convert_file_def Let_def path_exists_def emit_def new_events_def
      msg_not_found_def msg_unsupported_def)

theorem validate_failures_witness:
  "\<not> path_exists sample_world ''missing.xyz'' \<and>
   lower (snd (splitext posix_env ''missing.xyz'')) \<notin> set supported_audio_formats \<and>
   lower (snd (splitext posix_env ''missing.xyz'')) \<notin> set supported_video_formats \<and>
   fst (validate_and_convert_file posix_env ''missing.xyz'' sample_world) =
     Inl (FileNotFoundError ''Le fichier n'existe pas.'') \<and>
   trace (snd (validate_and_convert_file posix_env ''missing.xyz'' sample_world)) =
     [PathExists ''missing.xyz''] \<and>
   path_exists sample_world ''notes.txt'' \<and>
   fst (validate_and_convert_file posix_env ''notes.txt'' sample_world) =
     Inl (ValueError
            (''Format de fichier non pris en charge. Formats support'' @ [CHR 0xE9] @
             ''s : WAV, MP3, M4A, MP4, AVI, MOV, MKV.'')) \<and>
   trace (snd (validate_and_convert_file posix_env ''notes.txt'' sample_world)) =
     [PathExists ''notes.txt'']"
proof -
  have m: "\<not> path_exists sample_world ''missing.xyz''"
    by (simp add: path_exists_def sample_world_def)
  have ma: "lower (snd (splitext posix_env ''missing.xyz'')) \<notin> set supported_audio_formats"
    and mv: "lower (snd (splitext posix_env ''missing.xyz'')) \<notin> set supported_video_formats"
    by code_simp+
  have n: "path_exists sample_world ''notes.txt''"
    by (simp add: path_exists_def sample_world_def)
  have na: "lower (snd (splitext posix_env ''notes.txt'')) \<notin> set supported_audio_formats"
    and nv: "lower (snd (splitext posix_env ''notes.txt'')) \<notin> set supported_video_formats"
    by code_simp+
  from validate_failures [of sample_world "''missing.xyz''" posix_env] m
  have r1: "validate_and_convert_file posix_env ''missing.xyz'' sample_world =
          (Inl (FileNotFoundError ''Le fichier n'existe pas.''),
           emit (PathExists ''missing.xyz'') sample_world)"
    by blast
  from validate_failures [of sample_world "''notes.txt''" posix_env] n na nv
  have r2: "validate_and_convert_file posix_env ''notes.txt'' sample_world =
          (Inl (ValueError
                  (''Format de fichier non pris en charge. Formats support'' @ [CHR 0xE9] @
                   ''s : WAV, MP3, M4A, MP4, AVI, MOV, MKV.'')),
           emit (PathExists ''notes.txt'') sample_world)"
    by blast
  have t: "trace sample_world = []" by (simp add: sample_world_def)
  show ?thesis using m ma mv n by (simp add: r1 r2 emit_def t)
qed

subsection \<open>The transcriber\<close>



lemma add_paragraph_cases:
  "add_paragraph doc txt = Inl (ValueError msg_xml) \<or> (\<exists>doc'. add_paragraph doc txt = Inr doc')"
  by (simp add: add_paragraph_def run_text_def)

lemma add_paragraph_compatible:
  "list_all xml_compatible txt \<Longrightarrow> \<exists>doc'. add_paragraph doc txt = Inr doc'"
  by (simp add: add_paragraph_def run_text_def)

lemma add_heading_transcription:
  "add_heading Document ''Transcription'' level = Inr [Heading level ''Transcription'']"
  by (simp add: add_heading_def Document_def run_text_def xml_compatible_def)


text \<open>
  A generator that raises makes the loop raise: the generator's exception, or before it
  the \<open>ValueError\<close> of a paragraph the document library refuses.
\<close>

lemma consume_segments_error:
  "stream_error s = Some e \<Longrightarrow>
   consume_segments doc s = Inl e \<or> consume_segments doc s = Inl (ValueError msg_xml)"
proof (induction doc s rule: consume_segments.induct)
  case (2 doc s rest)
  from add_paragraph_cases [of doc "seg_text s"] show ?case
  proof
    assume "add_paragraph doc (seg_text s) = Inl (ValueError msg_xml)"
    then show ?thesis by simp
  next
    assume "\<exists>doc'. add_paragraph doc (seg_text s) = Inr doc'"
    then obtain doc' where d: "add_paragraph doc (seg_text s) = Inr doc'" by blast
    with "2.IH" [OF d] "2.prems" show ?thesis by simp
  qed
qed simp_all

lemma consume_segments_error_compatible:
  "stream_error s = Some e \<Longrightarrow>
   list_all (\<lambda>s. list_all xml_compatible (seg_text s)) (yielded s) \<Longrightarrow>
   consume_segments doc s = Inl e"
proof (induction doc s rule: consume_segments.induct)
  case (2 doc s rest)
  from "2.prems" have "list_all xml_compatible (seg_text s)" by simp
  then obtain doc' where d: "add_paragraph doc (seg_text s) = Inr doc'"
    using add_paragraph_compatible by blast
  with "2.IH" [OF d] "2.prems" show ?case by simp
qed simp_all




text \<open>
  Claim C7. When the model fails to load, or \<open>model.transcribe\<close> raises, or the generator
  of segments raises after any number of segments, \<open>transcribe_audio\<close> raises, every file
  (the destination among them) is as it was, and the trace has no new write: \<open>doc.save\<close>
  is reached only when the generator has ended without raising. The exception raised is
  the model's, or the \<open>ValueError\<close> of a paragraph that the document library refused
  before the generator raised; it is the model's whenever the document library accepts
  the texts of the segments yielded.
\<close>

theorem transcribe_audio_failure_writes_nothing:
  assumes "WhisperModel env ''medium'' = Inl e \<or>
           (\<exists>model. WhisperModel env ''medium'' = Inr model \<and>
              (model_transcribe model (files w file_path) = Inl e \<or>
               (\<exists>segments. model_transcribe model (files w file_path) = Inr segments \<and>
                  stream_error segments = Some e)))"
  shows "(fst (transcribe_audio env file_path output_path w) = Inl e \<or>
          fst (transcribe_audio env file_path output_path w) = Inl (ValueError msg_xml)) \<and>
         ((\<forall>model segments.
              WhisperModel env ''medium'' = Inr model \<longrightarrow>
              model_transcribe model (files w file_path) = Inr segments \<longrightarrow>
              list_all (\<lambda>s. list_all xml_compatible (seg_text s)) (yielded segments)) \<longrightarrow>
            fst (transcribe_audio env file_path output_path w) = Inl e) \<and>
         files (snd (transcribe_audio env file_path output_path w)) = files w \<and>
         written (new_events w (snd (transcribe_audio env file_path output_path w))) = []"
proof -
  let ?r = "transcribe_audio env file_path output_path w"
  from assms consider
    (load) "WhisperModel env ''medium'' = Inl e"
  | (call) model where "WhisperModel env ''medium'' = Inr model"
      "model_transcribe model (files w file_path) = Inl e"
  | (gen) model segments where "WhisperModel env ''medium'' = Inr model"
      "model_transcribe model (files w file_path) = Inr segments"
      "stream_error segments = Some e"
    by blast
  then show ?thesis
  proof cases
    case load
    then show ?thesis
      by (simp add: transcribe_audio_def Let_def emit_def new_events_def)
  next
    case call
    then show ?thesis
      by (simp add: transcribe_audio_def Let_def emit_def new_events_def)
  next
    case gen
    let ?c = "consume_segments [Heading 1 ''Transcription''] segments"
    from consume_segments_error [OF gen(3), of "[Heading 1 ''Transcription'']"]
    obtain e' where c: "?c = Inl e'" and e': "e' = e \<or> e' = ValueError msg_xml"
      by blast
    have run: "?r = (Inl e', emit (ModelTranscribe file_path) (emit (ModelLoad ''medium'') w))"
      using gen(1,2) c
      by (simp add: transcribe_audio_def Let_def add_heading_transcription files_emit)
    have exact: "list_all (\<lambda>s. list_all xml_compatible (seg_text s)) (yielded segments) \<Longrightarrow> e' = e"
      using consume_segments_error_compatible [OF gen(3), of "[Heading 1 ''Transcription'']"] c
      by simp
    from e' have a: "fst ?r = Inl e \<or> fst ?r = Inl (ValueError msg_xml)"
      by (auto simp: run)
    from exact gen(1,2) have b: "(\<forall>model segments.
              WhisperModel env ''medium'' = Inr model \<longrightarrow>
              model_transcribe model (files w file_path) = Inr segments \<longrightarrow>
              list_all (\<lambda>s. list_all xml_compatible (seg_text s)) (yielded segments)) \<longrightarrow>
            fst ?r = Inl e"
      by (auto simp: run)
    have c: "files (snd ?r) = files w"
      by (simp add: run files_emit)
    have d: "written (new_events w (snd ?r)) = []"
      by (simp add: run new_events_def trace_emit)
    from a b c d show ?thesis by blast
  qed
qed

theorem transcribe_audio_failure_writes_nothing_witness:
  "stream_error (SYield \<lparr>seg_text = '' Bonjour.''\<rparr> (SRaise (LibraryError ''out of memory''))) =
     Some (LibraryError ''out of memory'') \<and>
   fst (transcribe_audio failing_model_env ''talk.WAV'' ''out.docx'' sample_world) =
     Inl (LibraryError ''out of memory'') \<and>
   files (snd (transcribe_audio failing_model_env ''talk.WAV'' ''out.docx'' sample_world)) ''out.docx'' = None \<and>
   written (new_events sample_world
     (snd (transcribe_audio failing_model_env ''talk.WAV'' ''out.docx'' sample_world))) = []"
proof -
  let ?stream = "SYield \<lparr>seg_text = '' Bonjour.''\<rparr> (SRaise (LibraryError ''out of memory''))"
  let ?model = "\<lparr>model_transcribe = (\<lambda>c :: file_content option. (Inr ?stream :: error + seg_stream))\<rparr>"
  have h1: "WhisperModel failing_model_env ''medium'' = Inr ?model"
    by (simp add: failing_model_env_def)
  have h2: "model_transcribe ?model (files sample_world ''talk.WAV'') = Inr ?stream"
    by simp
  have h3: "stream_error ?stream = Some (LibraryError ''out of memory'')"
    by simp
  have h4: "list_all (\<lambda>s. list_all xml_compatible (seg_text s)) (yielded ?stream)"
    by code_simp
  have h5: "\<forall>model segments.
              WhisperModel failing_model_env ''medium'' = Inr model \<longrightarrow>
              model_transcribe model (files sample_world ''talk.WAV'') = Inr segments \<longrightarrow>
              list_all (\<lambda>s. list_all xml_compatible (seg_text s)) (yielded segments)"
    using h1 h4 by auto
  have "WhisperModel failing_model_env ''medium'' = Inl (LibraryError ''out of memory'') \<or>
        (\<exists>model. WhisperModel failing_model_env ''medium'' = Inr model \<and>
           (model_transcribe model (files sample_world ''talk.WAV'') = Inl (LibraryError ''out of memory'') \<or>
            (\<exists>segments. model_transcribe model (files sample_world ''talk.WAV'') = Inr segments \<and>
               stream_error segments = Some (LibraryError ''out of memory''))))"
    using h1 h2 h3 by blast
  from transcribe_audio_failure_writes_nothing [OF this, of "''out.docx''"] h5
  have "fst (transcribe_audio failing_model_env ''talk.WAV'' ''out.docx'' sample_world) =
          Inl (LibraryError ''out of memory'')"
    and "files (snd (transcribe_audio failing_model_env ''talk.WAV'' ''out.docx'' sample_world)) =
          files sample_world"
    and "written (new_events sample_world
          (snd (transcribe_audio failing_model_env ''talk.WAV'' ''out.docx'' sample_world))) = []"
    by blast+
  then show ?thesis using h3 by (simp add: sample_world_def)
qed

subsection \<open>The interaction shell\<close>

text \<open>
  Claim C5. When the stored input path is unset, or the stored output path is unset
  (\<open>None\<close>, or the empty string that Python also takes for false), the trigger handler
  leaves the window's fields as they are (the status line among them) and the world as it
  was but for one new event, the warning dialog: no file changes, and no call of the
  normalizer or of the transcriber is made.
\<close>

theorem transcribe_unset_warns:
  assumes "\<not> truthy (selected_file a) \<or> \<not> truthy (output_file a)"
  shows "transcribe env (a, w) =
           (a, emit (MsgWarning ''Erreur''
                      (if \<not> truthy (selected_file a) then msg_select_input else msg_select_output)) w) \<and>
         files (snd (transcribe env (a, w))) = files w \<and>
         list_all (\<lambda>ev. \<not> normalizer_event ev \<and> \<not> transcriber_event ev)
           (new_events w (snd (transcribe env (a, w))))"
proof -
  have run: "transcribe env (a, w) =
           (a, emit (MsgWarning ''Erreur''
                      (if \<not> truthy (selected_file a) then msg_select_input else msg_select_output)) w)"
    using assms
    by (cases "selected_file a"; cases "output_file a") (auto simp: transcribe_def Let_def)
  show ?thesis
    unfolding run by (simp add: new_events_emit) (simp add: emit_def)
qed

theorem transcribe_unset_warns_witness:
  "\<not> truthy (selected_file init_app) \<and>
   transcribe posix_env (init_app, sample_world) =
     (init_app, emit (MsgWarning ''Erreur'' msg_select_input) sample_world) \<and>
   truthy (selected_file (select_file posix_env init_app ''clip.mp4'')) \<and>
   \<not> truthy (output_file (select_file posix_env init_app ''clip.mp4'')) \<and>
   transcribe posix_env (select_file posix_env init_app ''clip.mp4'', sample_world) =
     (select_file posix_env init_app ''clip.mp4'',
      emit (MsgWarning ''Erreur'' msg_select_output) sample_world)"
proof -
  have h1: "\<not> truthy (selected_file init_app)"
    by (simp add: init_app_def)
  have h2: "truthy (selected_file (select_file posix_env init_app ''clip.mp4''))"
    and h3: "\<not> truthy (output_file (select_file posix_env init_app ''clip.mp4''))"
    by (simp_all add: select_file_def init_app_def)
  from h1 have p1: "\<not> truthy (selected_file init_app) \<or> \<not> truthy (output_file init_app)"
    by simp
  from h3 have p2: "\<not> truthy (selected_file (select_file posix_env init_app ''clip.mp4'')) \<or>
                    \<not> truthy (output_file (select_file posix_env init_app ''clip.mp4''))"
    by simp
  from transcribe_unset_warns [OF p1, of posix_env sample_world] h1
  have r1: "transcribe posix_env (init_app, sample_world) =
     (init_app, emit (MsgWarning ''Erreur'' msg_select_input) sample_world)"
    by simp
  from transcribe_unset_warns [OF p2, of posix_env sample_world] h2
  have r2: "transcribe posix_env (select_file posix_env init_app ''clip.mp4'', sample_world) =
     (select_file posix_env init_app ''clip.mp4'',
      emit (MsgWarning ''Erreur'' msg_select_output) sample_world)"
    by simp
  from h1 h2 h3 r1 r2 show ?thesis by blast
qed

lemma transcribe_output_file: "output_file (fst (transcribe env (a, w))) = output_file a"
  by (auto simp: transcribe_def run_transcription_def on_exception_def Let_def
      split: option.splits prod.splits sum.splits)

lemma select_output_file_ok: "output_ok a \<Longrightarrow> output_ok (select_output_file env a p)"
  by (simp add: output_ok_def select_output_file_def Let_def endswith_append)

lemma handle_output_ok: "output_ok (fst s) \<Longrightarrow> output_ok (fst (handle env s act))"
  by (cases s; cases act)
     (simp_all add: select_output_file_ok,
      simp_all add: output_ok_def select_file_def transcribe_output_file)

lemma foldl_output_ok: "output_ok (fst s) \<Longrightarrow> output_ok (fst (foldl (handle env) s acts))"
  by (induction acts arbitrary: s) (simp_all add: handle_output_ok)

text \<open>
  Claim C6. For a non-empty path returned by the save dialog, the stored output path is
  the path itself when it ends in \<open>.docx\<close> and the path followed by \<open>.docx\<close> otherwise;
  \<open>notes\<close> is stored as \<open>notes.docx\<close>, and so is \<open>notes.docx\<close>. After any sequence of
  actions on a fresh window the stored output path is unset or ends in \<open>.docx\<close>.
\<close>

theorem select_output_file_docx:
  "(file_path \<noteq> [] \<longrightarrow>
      output_file (select_output_file env a file_path) =
        Some (if endswith file_path ''.docx'' then file_path else file_path @ ''.docx'')) \<and>
   output_file (select_output_file env a ''notes'') = Some ''notes.docx'' \<and>
   output_file (select_output_file env a ''notes.docx'') = Some ''notes.docx'' \<and>
   (case output_file (fst (session env w acts)) of
      None \<Rightarrow> True
    | Some p \<Rightarrow> endswith p ''.docx'')"
proof -
  have "output_ok init_app"
    by (simp add: output_ok_def init_app_def)
  then have "output_ok (fst (session env w acts))"
    unfolding session_def by (intro foldl_output_ok) simp
  then show ?thesis
    by (simp add: output_ok_def select_output_file_def Let_def endswith_def)
qed

theorem select_output_file_docx_witness:
  "''report'' \<noteq> [] \<and> \<not> endswith ''report'' ''.docx'' \<and>
   output_file (select_output_file posix_env init_app ''report'') = Some ''report.docx'' \<and>
   output_file (fst (session posix_env sample_world
     [SelectFile ''clip.mp4'', SelectOutputFile ''out'', Transcribe, SelectOutputFile []])) =
     Some ''out.docx'' \<and>
   endswith ''out.docx'' ''.docx''"
proof -
  have h1: "''report'' \<noteq> []" by simp
  have h2: "\<not> endswith ''report'' ''.docx''" by (simp add: endswith_def)
  have h3: "output_file (fst (session posix_env sample_world
     [SelectFile ''clip.mp4'', SelectOutputFile ''out'', Transcribe, SelectOutputFile []])) =
     Some ''out.docx''"
    by code_simp
  note t = select_output_file_docx [of "''report''" posix_env init_app sample_world
     "[SelectFile ''clip.mp4'', SelectOutputFile ''out'', Transcribe, SelectOutputFile []]"]
  from t h1 h2 have r1: "output_file (select_output_file posix_env init_app ''report'') = Some ''report.docx''"
    by simp
  from t h3 have r2: "endswith ''out.docx'' ''.docx''"
    by simp
  from h1 h2 h3 r1 r2 show ?thesis by blast
qed

text \<open>
  Claim C9. The suffix test is \<open>str.endswith\<close>, which compares code points: for a path
  whose last five characters lower-case to \<open>.docx\<close> without being \<open>.docx\<close> (as in
  \<open>notes.DOCX\<close>), the handler appends \<open>.docx\<close> and stores the path with both extensions.
\<close>

theorem select_output_file_case_sensitive:
  assumes "lower ext = ''.docx''" and "ext \<noteq> ''.docx''"
  shows "output_file (select_output_file env a (stem @ ext)) = Some (stem @ ext @ ''.docx'')"
proof -
  have "length (lower ext) = length ''.docx''" using assms(1) by simp
  then have len: "length ext = length ''.docx''" by (simp add: lower_def)
  have ne: "ext \<noteq> []" using len by auto
  have "\<not> endswith (stem @ ext) ''.docx''"
    using endswith_same_length [OF len] assms(2) by simp
  with ne show ?thesis by (simp add: select_output_file_def Let_def)
qed

theorem select_output_file_case_sensitive_witness:
  "lower ''.DOCX'' = ''.docx'' \<and> ''.DOCX'' \<noteq> ''.docx'' \<and>
   output_file (select_output_file posix_env init_app ''notes.DOCX'') = Some ''notes.DOCX.docx''"
proof -
  have h1: "lower ''.DOCX'' = ''.docx''" by code_simp
  have h2: "''.DOCX'' \<noteq> ''.docx''" by simp
  from select_output_file_case_sensitive [OF h1 h2, of posix_env init_app "''notes''"]
  show ?thesis using h1 h2 by simp
qed

text \<open>
  Claim C10. A cancelled dialog returns the empty path, and each of the two selection
  handlers then returns the window unchanged: both stored paths and both labels (and
  every other field) keep their values.
\<close>

theorem cancelled_dialog_unchanged:
  "select_file env a [] = a \<and> select_output_file env a [] = a \<and>
   handle env (a, w) (SelectFile []) = (a, w) \<and>
   handle env (a, w) (SelectOutputFile []) = (a, w)"
  by (simp add: select_file_def select_output_file_def)

lemma transcribe_ready:
  assumes "selected_file a = Some input_path" and "input_path \<noteq> []"
    and "output_file a = Some output_path" and "output_path \<noteq> []"
  shows "transcribe env (a, w) = run_transcription env input_path output_path (a, w)"
  using assms by (simp add: transcribe_def Let_def)

text \<open>
  Claim C8. With both paths set, the trigger handler ends in one of three ways. When the
  normalizer raises \<open>e\<close>, the world is the one the normalizer left plus the error dialog
  showing \<open>str(e)\<close>, and the status line reads the error message: neither the event-queue
  flush nor any call of the transcriber was made. When the normalizer returns and the
  transcriber raises \<open>e\<close>, the world is the one the transcriber left plus the error dialog
  showing \<open>str(e)\<close>, and the status line reads the error message: no success dialog is
  shown. When both return, the status line reads the success message and the information
  dialog names the output path. The texts are the program's: the status line reads
  \<open>Une erreur s'est produite.\<close> or \<open>Transcription terminee avec succes !\<close> (with its
  accents), and the information dialog \<open>La transcription a ete enregistree dans\<close>, the
  output path, and a full stop.
\<close>

theorem transcribe_outcomes:
  assumes "selected_file a = Some input_path" and "input_path \<noteq> []"
    and "output_file a = Some output_path" and "output_path \<noteq> []"
  shows "(validate_and_convert_file env input_path w = (Inl e, w1) \<longrightarrow>
            transcribe env (a, w) =
              (a\<lparr>status_label := ''Une erreur s'est produite.''\<rparr>,
               emit (MsgCritical ''Erreur'' (str_of e)) w1) \<and>
            list_all normalizer_event (new_events w w1)) \<and>
         (validate_and_convert_file env input_path w = (Inr audio_path, w1) \<and>
          transcribe_audio env audio_path output_path (emit ProcessEvents w1) = (Inl e, w3) \<longrightarrow>
            transcribe env (a, w) =
              (a\<lparr>status_label := ''Une erreur s'est produite.'',
                 status_style := ''font-weight: bold;''\<rparr>,
               emit (MsgCritical ''Erreur'' (str_of e)) w3) \<and>
            list_all transcriber_event (new_events (emit ProcessEvents w1) w3)) \<and>
         (validate_and_convert_file env input_path w = (Inr audio_path, w1) \<and>
          transcribe_audio env audio_path output_path (emit ProcessEvents w1) = (Inr (), w3) \<longrightarrow>
            transcribe env (a, w) =
              (a\<lparr>status_label := ''Transcription termin'' @ [CHR 0xE9] @ ''e avec succ'' @ [CHR 0xE8] @ ''s !'',
                 status_style := ''font-weight: bold;''\<rparr>,
               emit (MsgInformation (''Succ'' @ [CHR 0xE8] @ ''s'')
                 (''La transcription a '' @ [CHR 0xE9] @ ''t'' @ [CHR 0xE9] @ '' enregistr'' @ [CHR 0xE9] @
                  ''e dans '' @ output_path @ ''.'')) w3))"
proof (intro conjI impI)
  assume v: "validate_and_convert_file env input_path w = (Inl e, w1)"
  then show "transcribe env (a, w) =
      (a\<lparr>status_label := ''Une erreur s'est produite.''\<rparr>,
               emit (MsgCritical ''Erreur'' (str_of e)) w1)"
    by (simp add: transcribe_ready [OF assms] run_transcription_def on_exception_def msg_error_def)
  from v show "list_all normalizer_event (new_events w w1)"
    using normalizer_new_events [of w env input_path] by simp
next
  assume "validate_and_convert_file env input_path w = (Inr audio_path, w1) \<and>
          transcribe_audio env audio_path output_path (emit ProcessEvents w1) = (Inl e, w3)"
  then have v: "validate_and_convert_file env input_path w = (Inr audio_path, w1)"
    and t: "transcribe_audio env audio_path output_path (emit ProcessEvents w1) = (Inl e, w3)"
    by simp_all
  from v t show "transcribe env (a, w) =
      (a\<lparr>status_label := ''Une erreur s'est produite.'',
                 status_style := ''font-weight: bold;''\<rparr>,
       emit (MsgCritical ''Erreur'' (str_of e)) w3)"
    by (simp add: transcribe_ready [OF assms] run_transcription_def on_exception_def Let_def
        msg_error_def)
  from t show "list_all transcriber_event (new_events (emit ProcessEvents w1) w3)"
    using transcriber_new_events [of "emit ProcessEvents w1" env audio_path output_path] by simp
next
  assume "validate_and_convert_file env input_path w = (Inr audio_path, w1) \<and>
          transcribe_audio env audio_path output_path (emit ProcessEvents w1) = (Inr (), w3)"
  then show "transcribe env (a, w) =
      (a\<lparr>status_label := ''Transcription termin'' @ [CHR 0xE9] @ ''e avec succ'' @ [CHR 0xE8] @ ''s !'',
                 status_style := ''font-weight: bold;''\<rparr>,
       emit (MsgInformation (''Succ'' @ [CHR 0xE8] @ ''s'')
                 (''La transcription a '' @ [CHR 0xE9] @ ''t'' @ [CHR 0xE9] @ '' enregistr'' @ [CHR 0xE9] @
                  ''e dans '' @ output_path @ ''.'')) w3)"
    by (simp add: transcribe_ready [OF assms] run_transcription_def Let_def msg_success_def
        title_success_def msg_saved_def e_acute_def e_grave_def)
qed

theorem transcribe_outcomes_witness:
  "selected_file ready_app = Some ''clip.mp4'' \<and> output_file ready_app = Some ''out.docx'' \<and>
   status_label (fst (transcribe unreadable_clip_env (ready_app, sample_world))) = ''Une erreur s'est produite.'' \<and>
   trace (snd (transcribe unreadable_clip_env (ready_app, sample_world))) =
     [PathExists ''clip.mp4'', ClipOpen ''clip.mp4'',
      MsgCritical ''Erreur'' ''cannot read the clip''] \<and>
   status_label (fst (transcribe failing_model_env (ready_app, sample_world))) = ''Une erreur s'est produite.'' \<and>
   trace (snd (transcribe failing_model_env (ready_app, sample_world))) =
     [PathExists ''clip.mp4'', ClipOpen ''clip.mp4'', AudioWrite ''clip.mp3'', ProcessEvents,
      ModelLoad ''medium'', ModelTranscribe ''clip.mp3'',
      MsgCritical ''Erreur'' ''out of memory''] \<and>
   status_label (fst (transcribe posix_env (ready_app, sample_world))) = (''Transcription termin'' @ [CHR 0xE9] @ ''e avec succ'' @ [CHR 0xE8] @ ''s !'') \<and>
   trace (snd (transcribe posix_env (ready_app, sample_world))) =
     [PathExists ''clip.mp4'', ClipOpen ''clip.mp4'', AudioWrite ''clip.mp3'', ProcessEvents,
      ModelLoad ''medium'', ModelTranscribe ''clip.mp3'',
      DocSave ''out.docx'' [Heading 1 ''Transcription'', Paragraph '' Bonjour.'', Paragraph '' Merci.''],
      MsgInformation (''Succ'' @ [CHR 0xE8] @ ''s'') (''La transcription a '' @ [CHR 0xE9] @ ''t'' @ [CHR 0xE9] @ '' enregistr'' @ [CHR 0xE9] @
                  ''e dans '' @ ''out.docx'' @ ''.'')]"
proof -
  have s1: "selected_file ready_app = Some ''clip.mp4''" and s2: "''clip.mp4'' \<noteq> []"
    and s3: "output_file ready_app = Some ''out.docx''" and s4: "''out.docx'' \<noteq> []"
    by (simp_all add: ready_app_def)
  note outcomes = transcribe_outcomes [OF s1 s2 s3 s4]

  let ?v1 = "validate_and_convert_file unreadable_clip_env ''clip.mp4'' sample_world"
  have "fst ?v1 = Inl (LibraryError ''cannot read the clip'')" by code_simp
  then have v1: "?v1 = (Inl (LibraryError ''cannot read the clip''), snd ?v1)"
    by (metis prod.collapse)
  have t1: "trace (snd ?v1) = [PathExists ''clip.mp4'', ClipOpen ''clip.mp4'']" by code_simp
  from outcomes [where env = unreadable_clip_env and w = sample_world] v1
  have r1: "transcribe unreadable_clip_env (ready_app, sample_world) =
      (ready_app\<lparr>status_label := ''Une erreur s'est produite.''\<rparr>,
       emit (MsgCritical ''Erreur'' (str_of (LibraryError ''cannot read the clip''))) (snd ?v1))"
    by blast

  let ?v2 = "validate_and_convert_file failing_model_env ''clip.mp4'' sample_world"
  let ?t2 = "transcribe_audio failing_model_env ''clip.mp3'' ''out.docx'' (emit ProcessEvents (snd ?v2))"
  have "fst ?v2 = Inr ''clip.mp3''" by code_simp
  then have v2: "?v2 = (Inr ''clip.mp3'', snd ?v2)"
    by (metis prod.collapse)
  have "fst ?t2 = Inl (LibraryError ''out of memory'')" by code_simp
  then have e2: "?t2 = (Inl (LibraryError ''out of memory''), snd ?t2)"
    by (metis prod.collapse)
  have t2: "trace (snd ?t2) =
     [PathExists ''clip.mp4'', ClipOpen ''clip.mp4'', AudioWrite ''clip.mp3'', ProcessEvents,
      ModelLoad ''medium'', ModelTranscribe ''clip.mp3'']"
    by code_simp
  from outcomes [where env = failing_model_env and w = sample_world] v2 e2
  have r2: "transcribe failing_model_env (ready_app, sample_world) =
      (ready_app\<lparr>status_label := ''Une erreur s'est produite.'', status_style := ''font-weight: bold;''\<rparr>,
       emit (MsgCritical ''Erreur'' (str_of (LibraryError ''out of memory''))) (snd ?t2))"
    by blast

  let ?v3 = "validate_and_convert_file posix_env ''clip.mp4'' sample_world"
  let ?t3 = "transcribe_audio posix_env ''clip.mp3'' ''out.docx'' (emit ProcessEvents (snd ?v3))"
  have "fst ?v3 = Inr ''clip.mp3''" by code_simp
  then have v3: "?v3 = (Inr ''clip.mp3'', snd ?v3)"
    by (metis prod.collapse)
  have "fst ?t3 = Inr ()" by code_simp
  then have e3: "?t3 = (Inr (), snd ?t3)"
    by (metis prod.collapse)
  have t3: "trace (snd ?t3) =
     [PathExists ''clip.mp4'', ClipOpen ''clip.mp4'', AudioWrite ''clip.mp3'', ProcessEvents,
      ModelLoad ''medium'', ModelTranscribe ''clip.mp3'',
      DocSave ''out.docx'' [Heading 1 ''Transcription'', Paragraph '' Bonjour.'', Paragraph '' Merci.'']]"
    by code_simp
  from outcomes [where env = posix_env and w = sample_world] v3 e3
  have r3: "transcribe posix_env (ready_app, sample_world) =
      (ready_app\<lparr>status_label := ''Transcription termin'' @ [CHR 0xE9] @ ''e avec succ'' @ [CHR 0xE8] @ ''s !'',
         status_style := ''font-weight: bold;''\<rparr>,
       emit (MsgInformation (''Succ'' @ [CHR 0xE8] @ ''s'')
                 (''La transcription a '' @ [CHR 0xE9] @ ''t'' @ [CHR 0xE9] @ '' enregistr'' @ [CHR 0xE9] @
                  ''e dans '' @ ''out.docx'' @ ''.'')) (snd ?t3))"
    by blast

  show ?thesis
    using s1 s3 by (simp add: r1 r2 r3 trace_emit t1 t2 t3)
qed

end
